theory Spec2Isabelle
  imports Complex_Main
begin

section \<open>The logging pipeline of @xivdyetools/logger\<close>

text \<open>
  This theory embeds the logging core of the package: \<^verbatim>\<open>core/base-logger.ts\<close> (the class
  \<^verbatim>\<open>BaseLogger\<close> and the \<^verbatim>\<open>DelegatingLogger\<close> that \<^verbatim>\<open>child()\<close> returns) and the
  \<^verbatim>\<open>perf\<close> timer registry of \<^verbatim>\<open>presets/browser.ts\<close>.

  The source tree holds two revisions of \<^verbatim>\<open>base-logger.ts\<close>. The embedding follows the
  later one (release 1.0.2 and after, the one its co-located test file and the changelog
  entries LOG-ERR-001, LOG-API-001 and 1.0.2 describe): quoted and unquoted value patterns,
  the negative lookahead of the authorization pattern, and \<^verbatim>\<open>child()\<close> by delegation.
  The other one is the first release, where the value of a key was \<^verbatim>\<open>\S+\<close>, the
  authorization and the two token-family rules did not exist, and \<^verbatim>\<open>child()\<close> built a
  second logger with a copy of the context. \<^verbatim>\<open>shouldLog\<close>, \<^verbatim>\<open>createEntry\<close>,
  \<^verbatim>\<open>mergeContext\<close>, \<^verbatim>\<open>formatError\<close>, \<^verbatim>\<open>redactSensitiveFields\<close>, \<^verbatim>\<open>setContext\<close>,
  \<^verbatim>\<open>time\<close> and \<^verbatim>\<open>timeAsync\<close> are the same text in both.
\<close>

subsection \<open>JavaScript values\<close>

text \<open>
  The values a context can hold and the values that can be passed as the \<^verbatim>\<open>error\<close>
  argument (its type is \<^verbatim>\<open>unknown\<close>). Numbers are whole numbers; an object other than an
  \<^verbatim>\<open>Error\<close> is known by the result of its own \<^verbatim>\<open>toString\<close>, if it has one; an
  \<^verbatim>\<open>Error\<close> instance carries \<^verbatim>\<open>name\<close>, \<^verbatim>\<open>message\<close>, the \<^verbatim>\<open>code\<close> property if
  present, and \<^verbatim>\<open>stack\<close> if defined.
\<close>

datatype jsval =
    JUndefined
  | JNull
  | JBool bool
  | JNum int
  | JStr string
  | JObject "string option"
  | JError (err_name: string) (err_message: string) (err_code: "jsval option") (err_stack: "string option")

text \<open>Truthiness, as tested by \<^verbatim>\<open>if (error)\<close>.\<close>

fun truthy :: "jsval \<Rightarrow> bool" where
  "truthy JUndefined = False"
| "truthy JNull = False"
| "truthy (JBool b) = b"
| "truthy (JNum n) = (n \<noteq> 0)"
| "truthy (JStr s) = (s \<noteq> [])"
| "truthy (JObject _) = True"
| "truthy (JError _ _ _ _) = True"

fun digits :: "nat \<Rightarrow> string" where
  "digits n = (if n < 10 then [''0123456789'' ! n] else digits (n div 10) @ [''0123456789'' ! (n mod 10)])"

declare digits.simps [simp del]

definition show_int :: "int \<Rightarrow> string" where
  "show_int i = (if i < 0 then CHR ''-'' # digits (nat (- i)) else digits (nat i))"

text \<open>
  \<^verbatim>\<open>String(value)\<close>. A plain object without a string representation of its own yields
  the generic tag; an \<^verbatim>\<open>Error\<close> prints as \<^verbatim>\<open>Error.prototype.toString\<close> does.
\<close>

fun ToString :: "jsval \<Rightarrow> string" where
  "ToString JUndefined = ''undefined''"
| "ToString JNull = ''null''"
| "ToString (JBool b) = (if b then ''true'' else ''false'')"
| "ToString (JNum n) = show_int n"
| "ToString (JStr s) = s"
| "ToString (JObject None) = ''[object Object]''"
| "ToString (JObject (Some s)) = s"
| "ToString (JError n m _ _) = (if m = [] then n else if n = [] then m else n @ '': '' @ m)"

text \<open>\<^verbatim>\<open>Number.prototype.toFixed(2)\<close> on a whole number.\<close>

definition toFixed2 :: "int \<Rightarrow> string" where
  "toFixed2 d = show_int d @ ''.00''"

text \<open>\<^verbatim>\<open>Array.prototype.indexOf\<close>: the first index holding the value, or \<open>-1\<close>.\<close>

fun indexOf :: "'a list \<Rightarrow> 'a \<Rightarrow> int" where
  "indexOf [] x = - 1"
| "indexOf (y # ys) x = (if y = x then 0 else (let i = indexOf ys x in if i < 0 then - 1 else i + 1))"

subsection \<open>Regular expressions\<close>

text \<open>
  The fragment of ECMAScript regular expressions that \<^verbatim>\<open>sanitizeErrorMessage\<close> uses,
  under the flags \<^verbatim>\<open>gi\<close>. A string is the list of its code units, here those below 256.
  A quantifier is applied to a character class only, as in every pattern of the source.
  Capture groups are not recorded: no replacement text refers to one.
\<close>

definition is_space :: "char \<Rightarrow> bool" where
  \<comment> \<open>\<^verbatim>\<open>\s\<close>: tab, line feed, vertical tab, form feed, carriage return, space, no-break space\<close>
  "is_space c = (c \<in> set [CHR 0x09, CHR 0x0A, CHR 0x0B, CHR 0x0C, CHR 0x0D, CHR 0x20, CHR 0xA0])"

definition canonicalize :: "char \<Rightarrow> char" where
  \<comment> \<open>case folding of the \<^verbatim>\<open>i\<close> flag; every pattern character of the source is ASCII,
      and a pattern character below 128 is matched by its two ASCII cases only\<close>
  "canonicalize c =
     (case map_of (zip ''abcdefghijklmnopqrstuvwxyz'' ''ABCDEFGHIJKLMNOPQRSTUVWXYZ'') c of
        Some u \<Rightarrow> u | None \<Rightarrow> c)"

datatype citem = WhiteSpace | Ch char

fun in_item :: "char \<Rightarrow> citem \<Rightarrow> bool" where
  "in_item c WhiteSpace = is_space c"
| "in_item c (Ch d) = (canonicalize c = canonicalize d)"

datatype cclass = OneOf "citem list" | NoneOf "citem list"

fun in_class :: "cclass \<Rightarrow> char \<Rightarrow> bool" where
  "in_class (OneOf items) c = (\<exists>i \<in> set items. in_item c i)"
| "in_class (NoneOf items) c = (\<not> (\<exists>i \<in> set items. in_item c i))"

datatype regex =
    Lit string
  | Class cclass
  | Seq regex regex
  | Alt regex regex
  | Opt regex
  | Star cclass
  | Plus cclass
  | LazyStar cclass
  | NegLookahead regex

text \<open>
  Backtracking is a list of successes: \<open>matches r s\<close> lists the rest of \<open>s\<close> after every
  way \<open>r\<close> can match a prefix of \<open>s\<close>, in the order in which the backtracking matcher
  tries them (left alternative first, greedy quantifiers longest first, lazy ones shortest
  first). The match the engine reports is the head of the list.
\<close>

fun lit_match :: "string \<Rightarrow> string \<Rightarrow> string list" where
  "lit_match [] s = [s]"
| "lit_match (p # ps) [] = []"
| "lit_match (p # ps) (c # cs) = (if canonicalize c = canonicalize p then lit_match ps cs else [])"

fun star_greedy :: "cclass \<Rightarrow> string \<Rightarrow> string list" where
  "star_greedy k [] = [[]]"
| "star_greedy k (c # cs) = (if in_class k c then star_greedy k cs @ [c # cs] else [c # cs])"

fun star_lazy :: "cclass \<Rightarrow> string \<Rightarrow> string list" where
  "star_lazy k [] = [[]]"
| "star_lazy k (c # cs) = (c # cs) # (if in_class k c then star_lazy k cs else [])"

fun matches :: "regex \<Rightarrow> string \<Rightarrow> string list" where
  "matches (Lit l) s = lit_match l s"
| "matches (Class k) s = (case s of [] \<Rightarrow> [] | c # cs \<Rightarrow> if in_class k c then [cs] else [])"
| "matches (Seq a b) s = concat (map (matches b) (matches a s))"
| "matches (Alt a b) s = matches a s @ matches b s"
| "matches (Opt a) s = matches a s @ [s]"
| "matches (Star k) s = star_greedy k s"
| "matches (Plus k) s = (case s of [] \<Rightarrow> [] | c # cs \<Rightarrow> if in_class k c then star_greedy k cs else [])"
| "matches (LazyStar k) s = star_lazy k s"
| "matches (NegLookahead a) s = (if matches a s = [] then [s] else [])"

text \<open>
  \<^verbatim>\<open>String.prototype.replace\<close> with a global pattern and a replacement text without
  \<^verbatim>\<open>$\<close>: scan from the left; where the pattern matches, emit the replacement and go on
  after the match; elsewhere copy one code unit. After an empty match the scan advances by
  one code unit.
\<close>

fun replace_all :: "regex \<Rightarrow> string \<Rightarrow> string \<Rightarrow> string" where
  "replace_all r rep [] = (case matches r [] of [] \<Rightarrow> [] | t # ts \<Rightarrow> rep)"
| "replace_all r rep (c # cs) =
     (case matches r (c # cs) of
        [] \<Rightarrow> c # replace_all r rep cs
      | t # ts \<Rightarrow> if length t < length (c # cs) then rep @ replace_all r rep t
                 else rep @ c # replace_all r rep cs)"

fun seqs :: "regex list \<Rightarrow> regex" where
  "seqs [] = Lit []"
| "seqs [r] = r"
| "seqs (r # rs) = Seq r (seqs rs)"

subsection \<open>Message sanitization\<close>

definition quote :: cclass where
  \<comment> \<open>\<^verbatim>\<open>["']\<close>\<close>
  "quote = OneOf [Ch (CHR 0x22), Ch (CHR 0x27)]"

definition not_quote :: cclass where
  \<comment> \<open>\<^verbatim>\<open>[^"']\<close>\<close>
  "not_quote = NoneOf [Ch (CHR 0x22), Ch (CHR 0x27)]"

definition unquoted :: cclass where
  \<comment> \<open>\<^verbatim>\<open>[^\s,;]\<close>\<close>
  "unquoted = NoneOf [WhiteSpace, Ch CHR '','', Ch CHR '';'']"

definition value_pattern :: regex where
  \<comment> \<open>\<^verbatim>\<open>(?:["']([^"']*?)["']|[^\s,;]+)\<close>\<close>
  "value_pattern = Alt (seqs [Class quote, LazyStar not_quote, Class quote]) (Plus unquoted)"

definition delimiter :: regex where
  \<comment> \<open>\<^verbatim>\<open>[=:]\<close>\<close>
  "delimiter = Class (OneOf [Ch CHR ''='', Ch CHR '':''])"

definition sep :: regex where
  \<comment> \<open>\<^verbatim>\<open>[_-]?\<close>\<close>
  "sep = Opt (Class (OneOf [Ch CHR ''_'', Ch CHR ''-'']))"

definition bearer_pattern :: regex where
  \<comment> \<open>\<^verbatim>\<open>/Bearer\s+\S+/gi\<close>\<close>
  "bearer_pattern = seqs [Lit ''Bearer'', Plus (OneOf [WhiteSpace]), Plus (NoneOf [WhiteSpace])]"

definition token_pattern :: regex where
  \<comment> \<open>\<^verbatim>\<open>/token[=:]\s*(?:["']([^"']*?)["']|[^\s,;]+)/gi\<close>\<close>
  "token_pattern = seqs [Lit ''token'', delimiter, Star (OneOf [WhiteSpace]), value_pattern]"

definition secret_pattern :: regex where
  \<comment> \<open>\<^verbatim>\<open>/secret[=:]\s*(?:["']([^"']*?)["']|[^\s,;]+)/gi\<close>\<close>
  "secret_pattern = seqs [Lit ''secret'', delimiter, Star (OneOf [WhiteSpace]), value_pattern]"

definition password_pattern :: regex where
  \<comment> \<open>\<^verbatim>\<open>/password[=:]\s*(?:["']([^"']*?)["']|[^\s,;]+)/gi\<close>\<close>
  "password_pattern = seqs [Lit ''password'', delimiter, Star (OneOf [WhiteSpace]), value_pattern]"

definition api_key_pattern :: regex where
  \<comment> \<open>\<^verbatim>\<open>/api[_-]?key[=:]\s*(?:["']([^"']*?)["']|[^\s,;]+)/gi\<close>\<close>
  "api_key_pattern =
     seqs [Lit ''api'', sep, Lit ''key'', delimiter, Star (OneOf [WhiteSpace]), value_pattern]"

definition authorization_pattern :: regex where
  \<comment> \<open>\<^verbatim>\<open>/authorization[=:]\s*(?!Bearer\s)(?:["']([^"']*?)["']|[^\s,;]+)/gi\<close>\<close>
  "authorization_pattern =
     seqs [Lit ''authorization'', delimiter, Star (OneOf [WhiteSpace]),
           NegLookahead (Seq (Lit ''Bearer'') (Class (OneOf [WhiteSpace]))), value_pattern]"

definition access_token_pattern :: regex where
  \<comment> \<open>\<^verbatim>\<open>/access[_-]?token[=:]\s*(?:["']([^"']*?)["']|[^\s,;]+)/gi\<close>\<close>
  "access_token_pattern =
     seqs [Lit ''access'', sep, Lit ''token'', delimiter, Star (OneOf [WhiteSpace]), value_pattern]"

definition refresh_token_pattern :: regex where
  \<comment> \<open>\<^verbatim>\<open>/refresh[_-]?token[=:]\s*(?:["']([^"']*?)["']|[^\s,;]+)/gi\<close>\<close>
  "refresh_token_pattern =
     seqs [Lit ''refresh'', sep, Lit ''token'', delimiter, Star (OneOf [WhiteSpace]), value_pattern]"

text \<open>The chain of replacements of \<^verbatim>\<open>sanitizeErrorMessage\<close>, in the order of the source.\<close>

definition rules :: "(regex \<times> string) list" where
  "rules =
    [(bearer_pattern, ''Bearer [REDACTED]''),
     (token_pattern, ''token=[REDACTED]''),
     (secret_pattern, ''secret=[REDACTED]''),
     (password_pattern, ''password=[REDACTED]''),
     (api_key_pattern, ''api_key=[REDACTED]''),
     (authorization_pattern, ''authorization=[REDACTED]''),
     (access_token_pattern, ''access_token=[REDACTED]''),
     (refresh_token_pattern, ''refresh_token=[REDACTED]'')]"

definition sanitizeErrorMessage :: "string \<Rightarrow> string" where
  "sanitizeErrorMessage message = fold (\<lambda>(r, rep) m. replace_all r rep m) rules message"

subsection \<open>Configuration, contexts and entries\<close>

text \<open>
  A context is a mapping from keys to values. \<^verbatim>\<open>config.level\<close> is typed as one of four
  string literals, but nothing checks it at run time, so the model lets it be any value.
\<close>

type_synonym LogContext = "string \<rightharpoonup> jsval"

record LoggerConfig =
  level :: jsval
  format :: string
  timestamps :: bool
  prefix :: "string option"
  sanitizeErrors :: bool
  redactFields :: "string list option"

record PartialConfig =
  opt_level :: "jsval option"
  opt_format :: "string option"
  opt_timestamps :: "bool option"
  opt_prefix :: "string option"
  opt_sanitizeErrors :: "bool option"
  opt_redactFields :: "string list option"

record LogError =
  name :: string
  message :: string
  code :: "string option"
  stack :: "string option"

record LogEntry =
  entry_level :: string
  entry_message :: string
  entry_timestamp :: string
  entry_context :: "LogContext option"
  entry_error :: "LogError option"

definition LOG_LEVELS :: "jsval list" where
  "LOG_LEVELS = [JStr ''debug'', JStr ''info'', JStr ''warn'', JStr ''error'']"

definition DEFAULT_REDACT_FIELDS :: "string list" where
  "DEFAULT_REDACT_FIELDS =
     [''password'', ''token'', ''secret'', ''authorization'', ''cookie'', ''api_key'', ''apiKey'',
      ''access_token'', ''refresh_token'']"

definition REDACTED :: jsval where
  "REDACTED = JStr ''[REDACTED]''"

text \<open>The constructor: the defaults, overridden by the fields the caller gives.\<close>

definition make_config :: "PartialConfig \<Rightarrow> LoggerConfig" where
  "make_config c =
     \<lparr> level = (case opt_level c of None \<Rightarrow> JStr ''info'' | Some l \<Rightarrow> l),
       format = (case opt_format c of None \<Rightarrow> ''json'' | Some f \<Rightarrow> f),
       timestamps = (case opt_timestamps c of None \<Rightarrow> True | Some t \<Rightarrow> t),
       prefix = opt_prefix c,
       sanitizeErrors = (case opt_sanitizeErrors c of None \<Rightarrow> True | Some b \<Rightarrow> b),
       redactFields = Some (case opt_redactFields c of None \<Rightarrow> DEFAULT_REDACT_FIELDS | Some fs \<Rightarrow> fs) \<rparr>"

definition shouldLog :: "LoggerConfig \<Rightarrow> string \<Rightarrow> bool" where
  "shouldLog cfg lvl = (indexOf LOG_LEVELS (JStr lvl) \<ge> indexOf LOG_LEVELS (level cfg))"

definition fieldsToRedact :: "LoggerConfig \<Rightarrow> string list" where
  \<comment> \<open>\<^verbatim>\<open>this.config.redactFields || DEFAULT_REDACT_FIELDS\<close>\<close>
  "fieldsToRedact cfg = (case redactFields cfg of Some fs \<Rightarrow> fs | None \<Rightarrow> DEFAULT_REDACT_FIELDS)"

text \<open>
  A context is a plain object: the map gives its own properties, and it inherits the
  properties of an unmodified \<^verbatim>\<open>Object.prototype\<close>. \<^verbatim>\<open>field in redacted\<close> is true for an
  own key and for an inherited name. \<^verbatim>\<open>redacted[field] = '[REDACTED]'\<close> sets an own
  property, also over an inherited method; only the inherited \<^verbatim>\<open>__proto__\<close> is an
  accessor, whose setter ignores a string, so that assignment changes nothing unless
  \<^verbatim>\<open>__proto__\<close> is an own key.
\<close>

definition Object_prototype_names :: "string list" where
  "Object_prototype_names =
     [''constructor'', ''hasOwnProperty'', ''isPrototypeOf'', ''propertyIsEnumerable'',
      ''toLocaleString'', ''toString'', ''valueOf'', ''__proto__'',
      ''__defineGetter__'', ''__defineSetter__'', ''__lookupGetter__'', ''__lookupSetter__'']"

definition has_property :: "LogContext \<Rightarrow> string \<Rightarrow> bool" where
  \<comment> \<open>\<^verbatim>\<open>field in obj\<close>\<close>
  "has_property obj field = (obj field \<noteq> None \<or> field \<in> set Object_prototype_names)"

definition set_sentinel :: "LogContext \<Rightarrow> string \<Rightarrow> LogContext" where
  \<comment> \<open>\<^verbatim>\<open>obj[field] = '[REDACTED]'\<close>\<close>
  "set_sentinel obj field =
     (if obj field = None \<and> field = ''__proto__'' then obj else obj(field \<mapsto> REDACTED))"

definition redactSensitiveFields :: "LoggerConfig \<Rightarrow> LogContext \<Rightarrow> LogContext" where
  "redactSensitiveFields cfg context =
     fold (\<lambda>field redacted. if has_property redacted field then set_sentinel redacted field else redacted)
          (fieldsToRedact cfg)
          context"

definition mergeContext :: "LoggerConfig \<Rightarrow> LogContext \<Rightarrow> LogContext option \<Rightarrow> LogContext option" where
  "mergeContext cfg globalCtx context =
     (if context = None \<and> globalCtx = Map.empty then None
      else Some (redactSensitiveFields cfg
                   (globalCtx ++ (case context of None \<Rightarrow> Map.empty | Some c \<Rightarrow> c))))"

definition formatError :: "LoggerConfig \<Rightarrow> jsval \<Rightarrow> LogError" where
  "formatError cfg e =
     (case e of
        JError n m c st \<Rightarrow>
          \<lparr> name = n,
            message = (if sanitizeErrors cfg then sanitizeErrorMessage m else m),
            code = (case c of Some (JStr s) \<Rightarrow> Some s | _ \<Rightarrow> None),
            stack = (if \<not> sanitizeErrors cfg then st else None) \<rparr>
      | _ \<Rightarrow> \<lparr> name = ''Unknown'', message = ToString e, code = None, stack = None \<rparr>)"

text \<open>
  \<^verbatim>\<open>createEntry\<close>. The reading of the clock, \<^verbatim>\<open>new Date().toISOString()\<close>, is the
  argument \<open>now\<close>.
\<close>

definition createEntry ::
  "LoggerConfig \<Rightarrow> LogContext \<Rightarrow> string \<Rightarrow> string \<Rightarrow> LogContext option \<Rightarrow> jsval \<Rightarrow> string \<Rightarrow> LogEntry" where
  "createEntry cfg globalCtx lvl msg context e now =
     \<lparr> entry_level = lvl,
       entry_message = (case prefix cfg of
                          None \<Rightarrow> msg
                        | Some p \<Rightarrow> if p \<noteq> [] then ''['' @ p @ ''] '' @ msg else msg),
       entry_timestamp = now,
       entry_context = (case mergeContext cfg globalCtx context of
                          None \<Rightarrow> None
                        | Some m \<Rightarrow> if m \<noteq> Map.empty then Some m else None),
       entry_error = (if truthy e then Some (formatError cfg e) else None) \<rparr>"

subsection \<open>Loggers in a store\<close>

text \<open>
  Context objects live in a heap, since \<^verbatim>\<open>DelegatingLogger.setContext\<close> updates its
  context object in place and \<^verbatim>\<open>BaseLogger.child\<close> keeps the very object the caller
  passes. A base logger holds its configuration, the address of its global context and
  what its transport has received: the abstract \<^verbatim>\<open>write\<close> is modelled as appending the
  entry to \<open>written\<close>. A delegating logger holds a reference to its parent and the address of
  its context layer, nothing else.
\<close>

type_synonym addr = nat
type_synonym lid = nat

record BaseLogger =
  config :: LoggerConfig
  globalContext :: addr
  written :: "LogEntry list"

record DelegatingLogger =
  parent :: lid
  childContext :: addr

record world =
  loggers :: "lid \<Rightarrow> BaseLogger"
  next_lid :: lid
  heap :: "addr \<Rightarrow> LogContext"
  next_addr :: addr

definition new_object :: "world \<Rightarrow> LogContext \<Rightarrow> addr \<times> world" where
  \<comment> \<open>an object literal or a spread expression: a fresh object\<close>
  "new_object w c = (next_addr w, w\<lparr> heap := (heap w)(next_addr w := c), next_addr := Suc (next_addr w) \<rparr>)"

definition new_BaseLogger :: "world \<Rightarrow> PartialConfig \<Rightarrow> lid \<times> world" where
  "new_BaseLogger w c =
     (let (a, w1) = new_object w Map.empty;
          p = next_lid w1
      in (p, w1\<lparr> loggers := (loggers w1)(p := \<lparr> config = make_config c, globalContext = a, written = [] \<rparr>),
                 next_lid := Suc p \<rparr>))"

definition write_entry :: "world \<Rightarrow> lid \<Rightarrow> LogEntry \<Rightarrow> world" where
  "write_entry w p entry = w\<lparr> loggers := (loggers w)(p := (loggers w p)\<lparr> written := written (loggers w p) @ [entry] \<rparr>) \<rparr>"

definition global_of :: "world \<Rightarrow> lid \<Rightarrow> LogContext" where
  \<comment> \<open>the contents of \<^verbatim>\<open>this.globalContext\<close>\<close>
  "global_of w p = heap w (globalContext (loggers w p))"

definition debug :: "world \<Rightarrow> lid \<Rightarrow> string \<Rightarrow> LogContext option \<Rightarrow> string \<Rightarrow> world" where
  "debug w p msg context now =
     (if shouldLog (config (loggers w p)) ''debug''
      then write_entry w p (createEntry (config (loggers w p)) (global_of w p) ''debug'' msg context JUndefined now)
      else w)"

definition info :: "world \<Rightarrow> lid \<Rightarrow> string \<Rightarrow> LogContext option \<Rightarrow> string \<Rightarrow> world" where
  "info w p msg context now =
     (if shouldLog (config (loggers w p)) ''info''
      then write_entry w p (createEntry (config (loggers w p)) (global_of w p) ''info'' msg context JUndefined now)
      else w)"

definition warn :: "world \<Rightarrow> lid \<Rightarrow> string \<Rightarrow> LogContext option \<Rightarrow> string \<Rightarrow> world" where
  "warn w p msg context now =
     (if shouldLog (config (loggers w p)) ''warn''
      then write_entry w p (createEntry (config (loggers w p)) (global_of w p) ''warn'' msg context JUndefined now)
      else w)"

definition error :: "world \<Rightarrow> lid \<Rightarrow> string \<Rightarrow> jsval \<Rightarrow> LogContext option \<Rightarrow> string \<Rightarrow> world" where
  "error w p msg e context now =
     (if shouldLog (config (loggers w p)) ''error''
      then write_entry w p (createEntry (config (loggers w p)) (global_of w p) ''error'' msg context e now)
      else w)"

definition child :: "lid \<Rightarrow> addr \<Rightarrow> DelegatingLogger" where
  \<comment> \<open>\<^verbatim>\<open>new DelegatingLogger(this, context)\<close>: the caller's object itself becomes the layer\<close>
  "child p context = \<lparr> parent = p, childContext = context \<rparr>"

definition setContext :: "world \<Rightarrow> lid \<Rightarrow> LogContext \<Rightarrow> world" where
  \<comment> \<open>\<^verbatim>\<open>this.globalContext = { ...this.globalContext, ...context }\<close>\<close>
  "setContext w p context =
     (let (a, w1) = new_object w (global_of w p ++ context)
      in w1\<lparr> loggers := (loggers w1)(p := (loggers w1 p)\<lparr> globalContext := a \<rparr>) \<rparr>)"

text \<open>
  \<^verbatim>\<open>time(label)\<close> reads the clock and returns a closure over the logger, the label and
  the reading; \<open>timer_end\<close> is the call of that closure. Readings of the millisecond clock
  are whole numbers, passed as arguments. The transport does not throw.
\<close>

record Timer =
  timer_logger :: lid
  timer_label :: string
  timer_start :: int

definition time :: "lid \<Rightarrow> string \<Rightarrow> int \<Rightarrow> Timer" where
  "time p label start = \<lparr> timer_logger = p, timer_label = label, timer_start = start \<rparr>"

definition timer_end :: "world \<Rightarrow> Timer \<Rightarrow> int \<Rightarrow> string \<Rightarrow> int \<times> world" where
  "timer_end w t finish now =
     (let duration = finish - timer_start t
      in (duration,
          debug w (timer_logger t) (timer_label t @ '': '' @ toFixed2 duration @ ''ms'')
            (Some [''duration'' \<mapsto> JNum duration, ''label'' \<mapsto> JStr (timer_label t)]) now))"

text \<open>
  The promise that \<^verbatim>\<open>fn()\<close> returns settles with a value, settles with a rejection, or
  never settles. What \<^verbatim>\<open>fn\<close> does to the loggers until then is its effect on the world.
  \<^verbatim>\<open>try { return await fn() } finally { end() }\<close>: the closure is called once the promise
  has settled, either way, and the outcome is passed on.
\<close>

datatype 'a outcome = Resolved 'a | Rejected jsval | Pending

definition timeAsync ::
  "world \<Rightarrow> lid \<Rightarrow> string \<Rightarrow> (world \<Rightarrow> 'a outcome \<times> world) \<Rightarrow> int \<Rightarrow> int \<Rightarrow> string \<Rightarrow> 'a outcome \<times> world" where
  "timeAsync w p label fn start finish now =
     (let t = time p label start;
          (r, w1) = fn w
      in case r of
           Pending \<Rightarrow> (Pending, w1)
         | _ \<Rightarrow> (r, snd (timer_end w1 t finish now)))"

subsection \<open>The delegating logger\<close>

definition delegating_mergeContext :: "world \<Rightarrow> DelegatingLogger \<Rightarrow> LogContext option \<Rightarrow> LogContext" where
  \<comment> \<open>\<^verbatim>\<open>context ? { ...this.childContext, ...context } : this.childContext\<close>\<close>
  "delegating_mergeContext w d context =
     (case context of
        Some c \<Rightarrow> heap w (childContext d) ++ c
      | None \<Rightarrow> heap w (childContext d))"

definition delegating_debug :: "world \<Rightarrow> DelegatingLogger \<Rightarrow> string \<Rightarrow> LogContext option \<Rightarrow> string \<Rightarrow> world" where
  "delegating_debug w d msg context now = debug w (parent d) msg (Some (delegating_mergeContext w d context)) now"

definition delegating_info :: "world \<Rightarrow> DelegatingLogger \<Rightarrow> string \<Rightarrow> LogContext option \<Rightarrow> string \<Rightarrow> world" where
  "delegating_info w d msg context now = info w (parent d) msg (Some (delegating_mergeContext w d context)) now"

definition delegating_warn :: "world \<Rightarrow> DelegatingLogger \<Rightarrow> string \<Rightarrow> LogContext option \<Rightarrow> string \<Rightarrow> world" where
  "delegating_warn w d msg context now = warn w (parent d) msg (Some (delegating_mergeContext w d context)) now"

definition delegating_error ::
  "world \<Rightarrow> DelegatingLogger \<Rightarrow> string \<Rightarrow> jsval \<Rightarrow> LogContext option \<Rightarrow> string \<Rightarrow> world" where
  "delegating_error w d msg e context now =
     error w (parent d) msg e (Some (delegating_mergeContext w d context)) now"

definition delegating_child :: "world \<Rightarrow> DelegatingLogger \<Rightarrow> LogContext \<Rightarrow> DelegatingLogger \<times> world" where
  \<comment> \<open>\<^verbatim>\<open>new DelegatingLogger(this.parent, { ...this.childContext, ...context })\<close>\<close>
  "delegating_child w d context =
     (let (a, w1) = new_object w (heap w (childContext d) ++ context)
      in (\<lparr> parent = parent d, childContext = a \<rparr>, w1))"

definition delegating_setContext :: "world \<Rightarrow> DelegatingLogger \<Rightarrow> LogContext \<Rightarrow> world" where
  \<comment> \<open>\<^verbatim>\<open>Object.assign(this.childContext, context)\<close>: an update in place\<close>
  "delegating_setContext w d context =
     w\<lparr> heap := (heap w)(childContext d := heap w (childContext d) ++ context) \<rparr>"

definition delegating_time :: "DelegatingLogger \<Rightarrow> string \<Rightarrow> int \<Rightarrow> Timer" where
  "delegating_time d label start = time (parent d) label start"

definition delegating_timeAsync ::
  "world \<Rightarrow> DelegatingLogger \<Rightarrow> string \<Rightarrow> (world \<Rightarrow> 'a outcome \<times> world) \<Rightarrow> int \<Rightarrow> int \<Rightarrow> string
     \<Rightarrow> 'a outcome \<times> world" where
  "delegating_timeAsync w d label fn start finish now = timeAsync w (parent d) label fn start finish now"

subsection \<open>The four severities of the logging interface\<close>

datatype LogLevel = Debug | Info | Warn | Error

fun level_name :: "LogLevel \<Rightarrow> string" where
  "level_name Debug = ''debug''"
| "level_name Info = ''info''"
| "level_name Warn = ''warn''"
| "level_name Error = ''error''"

text \<open>
  A call of the method of severity \<open>S\<close> on a base logger. The \<^verbatim>\<open>error\<close> method alone
  takes an error value.
\<close>

fun log_call :: "LogLevel \<Rightarrow> world \<Rightarrow> lid \<Rightarrow> string \<Rightarrow> jsval \<Rightarrow> LogContext option \<Rightarrow> string \<Rightarrow> world" where
  "log_call Debug w p msg e context now = debug w p msg context now"
| "log_call Info w p msg e context now = info w p msg context now"
| "log_call Warn w p msg e context now = warn w p msg context now"
| "log_call Error w p msg e context now = error w p msg e context now"

fun delegating_log_call ::
  "LogLevel \<Rightarrow> world \<Rightarrow> DelegatingLogger \<Rightarrow> string \<Rightarrow> jsval \<Rightarrow> LogContext option \<Rightarrow> string \<Rightarrow> world" where
  "delegating_log_call Debug w d msg e context now = delegating_debug w d msg context now"
| "delegating_log_call Info w d msg e context now = delegating_info w d msg context now"
| "delegating_log_call Warn w d msg e context now = delegating_warn w d msg context now"
| "delegating_log_call Error w d msg e context now = delegating_error w d msg e context now"

text \<open>
  The order of the specification: \<open>debug < info < warn < error\<close>, as a rank. This
  definition follows the specification's words, not the code; the code compares positions
  in \<open>LOG_LEVELS\<close>.
\<close>

fun rank :: "LogLevel \<Rightarrow> nat" where
  "rank Debug = 0"
| "rank Info = 1"
| "rank Warn = 2"
| "rank Error = 3"

subsection \<open>The performance timer registry\<close>

text \<open>
  The two module-level maps of \<^verbatim>\<open>presets/browser.ts\<close> and the lines given to
  \<^verbatim>\<open>console.warn\<close>. Readings of \<^verbatim>\<open>performance.now()\<close> are real numbers, passed as
  arguments.
\<close>

record MetricsData =
  count :: nat
  totalTime :: real
  minTime :: real
  maxTime :: real
  avgTime :: real

record registry =
  metricsStore :: "string \<rightharpoonup> MetricsData"
  activeTimers :: "string \<rightharpoonup> real"
  console_warn :: "string list"

definition already_active_message :: "string \<Rightarrow> string" where
  "already_active_message label =
     ''Timer '' @ [CHR 0x22] @ label @ [CHR 0x22] @
     '' is already active. Call end() before starting again, '' @
     ''or use a unique label for concurrent operations.''"

definition perf_start :: "registry \<Rightarrow> string \<Rightarrow> real \<Rightarrow> bool \<times> registry" where
  "perf_start r label now =
     (case activeTimers r label of
        Some _ \<Rightarrow> (False, r\<lparr> console_warn := console_warn r @ [already_active_message label] \<rparr>)
      | None \<Rightarrow> (True, r\<lparr> activeTimers := (activeTimers r)(label \<mapsto> now) \<rparr>))"

definition perf_end :: "registry \<Rightarrow> string \<Rightarrow> real \<Rightarrow> real \<times> registry" where
  "perf_end r label now =
     (case activeTimers r label of
        None \<Rightarrow> (0, r\<lparr> console_warn := console_warn r @ [''No timer started for label: '' @ label] \<rparr>)
      | Some startTime \<Rightarrow>
          (let duration = now - startTime;
               r1 = r\<lparr> activeTimers := (activeTimers r)(label := None) \<rparr>;
               m = (case metricsStore r1 label of
                      Some existing \<Rightarrow>
                        \<lparr> count = count existing + 1,
                          totalTime = totalTime existing + duration,
                          minTime = min (minTime existing) duration,
                          maxTime = max (maxTime existing) duration,
                          avgTime = (totalTime existing + duration) / real (count existing + 1) \<rparr>
                    | None \<Rightarrow>
                        \<lparr> count = 1, totalTime = duration, minTime = duration,
                          maxTime = duration, avgTime = duration \<rparr>)
           in (duration, r1\<lparr> metricsStore := (metricsStore r1)(label \<mapsto> m) \<rparr>)))"

definition clearMetrics :: "registry \<Rightarrow> registry" where
  "clearMetrics r = r\<lparr> metricsStore := Map.empty, activeTimers := Map.empty \<rparr>"

text \<open>A world without loggers and without objects, and a caller's partial configuration.\<close>

definition no_config :: PartialConfig where
  "no_config = \<lparr> opt_level = None, opt_format = None, opt_timestamps = None, opt_prefix = None,
                  opt_sanitizeErrors = None, opt_redactFields = None \<rparr>"

definition initial_world :: world where
  "initial_world =
     \<lparr> loggers = (\<lambda>_. \<lparr> config = make_config no_config, globalContext = 0, written = [] \<rparr>),
       next_lid = 0, heap = (\<lambda>_. Map.empty), next_addr = 0 \<rparr>"

text \<open>
  The two callbacks of the test file's \<^verbatim>\<open>timeAsync\<close> cases: one resolves with a string,
  one throws; neither logs.
\<close>

definition async_result :: "world \<Rightarrow> string outcome \<times> world" where
  "async_result w = (Resolved ''async-result'', w)"

definition async_failure :: "world \<Rightarrow> string outcome \<times> world" where
  "async_failure w = (Rejected (JError ''Error'' ''Async failure'' None None), w)"

definition empty_registry :: registry where
  "empty_registry = \<lparr> metricsStore = Map.empty, activeTimers = Map.empty, console_warn = [] \<rparr>"

text \<open>
  The states a program reaches through the public interface, together with the set \<open>K\<close> of
  context objects the program holds: the object literals it wrote and the layers of
  grandchildren. \<^verbatim>\<open>globalContext\<close> is protected, so no rule hands out its address; the
  program may assign to the objects it holds.
\<close>

inductive reachable :: "world \<Rightarrow> addr set \<Rightarrow> bool" where
  start: "reachable initial_world {}"
| construct: "reachable w K \<Longrightarrow> reachable (snd (new_BaseLogger w c)) K"
| literal: "reachable w K \<Longrightarrow> reachable (snd (new_object w c)) (insert (fst (new_object w c)) K)"
| assign: "reachable w K \<Longrightarrow> a \<in> K \<Longrightarrow> reachable (w\<lparr> heap := (heap w)(a := c) \<rparr>) K"
| log: "reachable w K \<Longrightarrow> p < next_lid w \<Longrightarrow> reachable (log_call S w p msg e context now) K"
| set_global: "reachable w K \<Longrightarrow> p < next_lid w \<Longrightarrow> reachable (setContext w p c) K"
| timed: "reachable w K \<Longrightarrow> timer_logger t < next_lid w \<Longrightarrow> reachable (snd (timer_end w t finish now)) K"
| child_log:
    "reachable w K \<Longrightarrow> p < next_lid w \<Longrightarrow> a \<in> K \<Longrightarrow>
     reachable (delegating_log_call S w (child p a) msg e context now) K"
| child_set:
    "reachable w K \<Longrightarrow> p < next_lid w \<Longrightarrow> a \<in> K \<Longrightarrow>
     reachable (delegating_setContext w (child p a) c) K"
| grandchild:
    "reachable w K \<Longrightarrow> p < next_lid w \<Longrightarrow> a \<in> K \<Longrightarrow>
     reachable (snd (delegating_child w (child p a) c))
               (insert (childContext (fst (delegating_child w (child p a) c))) K)"

text \<open>
  The invariant of the reachable states: the objects the program holds are allocated, and
  the global context of every logger is an allocated object that the program does not
  hold.
\<close>

definition separated :: "world \<Rightarrow> addr set \<Rightarrow> bool" where
  "separated w K \<longleftrightarrow>
     (\<forall>a \<in> K. a < next_addr w) \<and>
     (\<forall>p < next_lid w. globalContext (loggers w p) < next_addr w \<and> globalContext (loggers w p) \<notin> K)"

text \<open>
  The example of the specification: a logger with the default configuration whose global
  context has been set to \<open>{a: 1}\<close>, and an object \<open>{b: 2}\<close> held by the caller. The logger
  is number 0; its global context is the object at address 1, the caller's object is at
  address 2.
\<close>

definition example_world :: world where
  "example_world =
     snd (new_object (setContext (snd (new_BaseLogger initial_world no_config)) 0 [''a'' \<mapsto> JNum 1])
            [''b'' \<mapsto> JNum 2])"

text \<open>
  The test file's logger with level \<open>debug\<close> and prefix \<open>Test\<close>, and the caller's object
  \<open>{requestId: '123'}\<close>, at address 1.
\<close>

definition test_world :: world where
  "test_world =
     snd (new_object
            (snd (new_BaseLogger initial_world
                    (no_config\<lparr> opt_level := Some (JStr ''debug''), opt_prefix := Some ''Test'' \<rparr>)))
            [''requestId'' \<mapsto> JStr ''123''])"

section \<open>Properties\<close>

subsection \<open>The level filter\<close>

lemma indexOf_absent: "x \<notin> set xs \<Longrightarrow> indexOf xs x = - 1"
  by (induction xs) (auto simp: Let_def)

lemma indexOf_level_name: "indexOf LOG_LEVELS (JStr (level_name S)) = int (rank S)"
  by (cases S) (simp_all add: LOG_LEVELS_def)

lemma shouldLog_rank:
  "level cfg = JStr (level_name M) \<Longrightarrow> shouldLog cfg (level_name S) = (rank M \<le> rank S)"
  by (simp add: shouldLog_def indexOf_level_name)

lemma log_call_unfold:
  "log_call S w p msg e context now =
     (if shouldLog (config (loggers w p)) (level_name S)
      then write_entry w p (createEntry (config (loggers w p)) (global_of w p) (level_name S) msg context
                              (if S = Error then e else JUndefined) now)
      else w)"
  by (cases S) (simp_all add: debug_def info_def warn_def error_def)

lemma written_write_entry:
  "written (loggers (write_entry w p entry) p) = written (loggers w p) @ [entry]"
  by (simp add: write_entry_def)

lemma new_BaseLogger_initial:
  "new_BaseLogger initial_world c =
     (0, \<lparr> loggers = (loggers initial_world)(0 := \<lparr> config = make_config c, globalContext = 0, written = [] \<rparr>),
           next_lid = 1, heap = (\<lambda>_. Map.empty), next_addr = 1 \<rparr>)"
  by (simp add: new_BaseLogger_def new_object_def initial_world_def fun_eq_iff)

text \<open>
  C1. On a logger whose configured level is the severity \<open>M\<close>, a call of the method of
  severity \<open>S\<close> hands an entry to the transport if and only if \<open>rank M \<le> rank S\<close>; equal
  severity passes. When it does, the transport receives exactly the entry built by
  \<open>createEntry\<close>; when it does not, nothing changes.
\<close>

theorem level_filter:
  assumes "level (config (loggers w p)) = JStr (level_name M)"
  shows "((\<exists>entry. written (loggers (log_call S w p msg e context now) p) = written (loggers w p) @ [entry])
            \<longleftrightarrow> rank M \<le> rank S)
       \<and> (rank M \<le> rank S \<longrightarrow>
            written (loggers (log_call S w p msg e context now) p) =
              written (loggers w p) @
                [createEntry (config (loggers w p)) (global_of w p) (level_name S) msg context
                   (if S = Error then e else JUndefined) now])
       \<and> (\<not> rank M \<le> rank S \<longrightarrow> log_call S w p msg e context now = w)"
  using assms by (simp add: log_call_unfold shouldLog_rank written_write_entry)

text \<open>
  The scenario of the specification: a logger configured with level \<open>warn\<close>; \<open>debug('x')\<close>
  then \<open>error('y')\<close> leave one entry, for \<open>'y'\<close>, at severity \<open>error\<close>.
\<close>

theorem level_filter_witness:
  "level (config (loggers (snd (new_BaseLogger initial_world (no_config\<lparr> opt_level := Some (JStr ''warn'') \<rparr>))) 0))
      = JStr (level_name Warn)
   \<and> written (loggers (log_call Error (log_call Debug
         (snd (new_BaseLogger initial_world (no_config\<lparr> opt_level := Some (JStr ''warn'') \<rparr>)))
            0 ''x'' JUndefined None ''t1'') 0 ''y'' JUndefined None ''t2'') 0)
      = [\<lparr> entry_level = ''error'', entry_message = ''y'', entry_timestamp = ''t2'',
            entry_context = None, entry_error = None \<rparr>]"
proof -
  let ?w = "snd (new_BaseLogger initial_world (no_config\<lparr> opt_level := Some (JStr ''warn'') \<rparr>))"
  have h: "level (config (loggers ?w 0)) = JStr (level_name Warn)"
    by (simp add: new_BaseLogger_initial no_config_def make_config_def)
  have g: "global_of ?w 0 = Map.empty" "written (loggers ?w 0) = []"
    "prefix (config (loggers ?w 0)) = None"
    by (simp_all add: global_of_def new_BaseLogger_initial no_config_def make_config_def)
  from level_filter [OF h, of Debug "''x''" JUndefined None "''t1''"]
  have d: "log_call Debug ?w 0 ''x'' JUndefined None ''t1'' = ?w" by simp
  from level_filter [OF h, of Error "''y''" JUndefined None "''t2''"] h g d
  show ?thesis by (simp add: createEntry_def mergeContext_def)
qed

text \<open>
  C10. When the configured level is none of the four recognised values, \<open>indexOf\<close> gives
  \<open>-1\<close> for it and the filter lets every call through: \<open>debug\<close>, \<open>info\<close>, \<open>warn\<close> and
  \<open>error\<close> all reach the transport.
\<close>

theorem unknown_level_always_logs:
  assumes "level (config (loggers w p)) \<notin> set LOG_LEVELS"
  shows "indexOf LOG_LEVELS (level (config (loggers w p))) = - 1
       \<and> shouldLog (config (loggers w p)) (level_name S)
       \<and> written (loggers (log_call S w p msg e context now) p) =
           written (loggers w p) @
             [createEntry (config (loggers w p)) (global_of w p) (level_name S) msg context
                (if S = Error then e else JUndefined) now]"
proof -
  have i: "indexOf LOG_LEVELS (level (config (loggers w p))) = - 1"
    using assms by (rule indexOf_absent)
  then have s: "shouldLog (config (loggers w p)) (level_name S)"
    by (simp add: shouldLog_def indexOf_level_name)
  with i show ?thesis
    by (simp add: log_call_unfold written_write_entry)
qed

theorem unknown_level_always_logs_witness:
  "level (config (loggers (snd (new_BaseLogger initial_world (no_config\<lparr> opt_level := Some (JStr ''verbose'') \<rparr>))) 0))
      \<notin> set LOG_LEVELS
   \<and> written (loggers (log_call Debug
         (snd (new_BaseLogger initial_world (no_config\<lparr> opt_level := Some (JStr ''verbose'') \<rparr>)))
            0 ''x'' JUndefined None ''t1'') 0)
      = [\<lparr> entry_level = ''debug'', entry_message = ''x'', entry_timestamp = ''t1'',
            entry_context = None, entry_error = None \<rparr>]"
proof -
  let ?w = "snd (new_BaseLogger initial_world (no_config\<lparr> opt_level := Some (JStr ''verbose'') \<rparr>))"
  have h: "level (config (loggers ?w 0)) \<notin> set LOG_LEVELS"
    by (simp add: new_BaseLogger_initial no_config_def make_config_def LOG_LEVELS_def)
  have g: "global_of ?w 0 = Map.empty" "written (loggers ?w 0) = []"
    "prefix (config (loggers ?w 0)) = None"
    by (simp_all add: global_of_def new_BaseLogger_initial no_config_def make_config_def)
  from unknown_level_always_logs [OF h, of Debug "''x''" JUndefined None "''t1''"] h g
  show ?thesis by (simp add: createEntry_def mergeContext_def)
qed

subsection \<open>Formatting of non-error values\<close>

lemma error_unfold:
  "shouldLog (config (loggers w p)) ''error'' \<Longrightarrow>
   written (loggers (error w p msg e context now) p) =
     written (loggers w p) @ [createEntry (config (loggers w p)) (global_of w p) ''error'' msg context e now]"
  by (simp add: error_def written_write_entry)

text \<open>
  C9, as amended. A call \<open>error(message, e)\<close> that passes the filter, with \<open>e\<close> not an
  \<^verbatim>\<open>Error\<close> instance: when \<open>e\<close> is truthy the entry's error field is
  \<open>{name: "Unknown", message: String(e)}\<close>; when \<open>e\<close> is falsy (\<open>undefined\<close>, \<open>null\<close>, the
  empty string, \<open>0\<close>, \<open>false\<close>) the guard \<^verbatim>\<open>if (error)\<close> of \<^verbatim>\<open>createEntry\<close> leaves the
  entry without an error field. \<^verbatim>\<open>formatError\<close> itself, called directly, maps every such
  value to \<open>{name: "Unknown", message: String(e)}\<close>.
\<close>

theorem non_error_value_formatting:
  assumes "shouldLog (config (loggers w p)) ''error''" and "\<not> is_JError e"
  shows "written (loggers (error w p msg e context now) p) =
           written (loggers w p) @ [createEntry (config (loggers w p)) (global_of w p) ''error'' msg context e now]
       \<and> entry_error (createEntry (config (loggers w p)) (global_of w p) ''error'' msg context e now) =
           (if truthy e
            then Some \<lparr> name = ''Unknown'', message = ToString e, code = None, stack = None \<rparr>
            else None)
       \<and> formatError (config (loggers w p)) e =
           \<lparr> name = ''Unknown'', message = ToString e, code = None, stack = None \<rparr>"
  using assms by (cases e) (simp_all add: error_unfold createEntry_def formatError_def)

theorem non_error_value_formatting_witness:
  "shouldLog (config (loggers (snd (new_BaseLogger initial_world no_config)) 0)) ''error''
   \<and> \<not> is_JError (JObject None)
   \<and> map entry_error (written (loggers (error (snd (new_BaseLogger initial_world no_config)) 0 ''m'' (JObject None) None ''t'') 0))
      = [Some \<lparr> name = ''Unknown'', message = ''[object Object]'', code = None, stack = None \<rparr>]"
proof -
  let ?w = "snd (new_BaseLogger initial_world no_config)"
  have h: "shouldLog (config (loggers ?w 0)) ''error''"
    by (simp add: new_BaseLogger_initial no_config_def make_config_def shouldLog_def LOG_LEVELS_def)
  have n: "\<not> is_JError (JObject None)" by simp
  have g: "written (loggers ?w 0) = []"
    by (simp add: new_BaseLogger_initial)
  from non_error_value_formatting [OF h n, of "''m''" None "''t''"] h g
  show ?thesis by simp
qed

text \<open>
  C9 as stated fails at \<open>null\<close>: \<open>error('m', null)\<close> on a logger with the default
  configuration emits an entry without an error field.
\<close>

theorem null_error_counterexample:
  "shouldLog (config (loggers (snd (new_BaseLogger initial_world no_config)) 0)) ''error''
   \<and> \<not> is_JError JNull
   \<and> map entry_error (written (loggers (error (snd (new_BaseLogger initial_world no_config)) 0 ''m'' JNull None ''t'') 0))
      = [None]
   \<and> map entry_error (written (loggers (error (snd (new_BaseLogger initial_world no_config)) 0 ''m'' JNull None ''t'') 0))
      \<noteq> [Some \<lparr> name = ''Unknown'', message = ToString JNull, code = None, stack = None \<rparr>]"
  by (simp add: new_BaseLogger_initial no_config_def make_config_def shouldLog_def LOG_LEVELS_def
      error_def write_entry_def createEntry_def)

subsection \<open>The timer registry\<close>

lemma perf_start_inactive:
  "activeTimers r label = None \<Longrightarrow>
   perf_start r label t0 = (True, r\<lparr> activeTimers := (activeTimers r)(label \<mapsto> t0) \<rparr>)"
  by (simp add: perf_start_def)

text \<open>
  C7. When the label already has an active timer, started at \<open>t0\<close>, \<open>perf.start(label)\<close>
  returns \<open>false\<close>, adds one warning, and leaves both maps as they are: the active-timers
  map still holds \<open>t0\<close> for the label. A later \<open>perf.end(label)\<close> at time \<open>t2\<close> returns
  \<open>t2 - t0\<close>, the duration since the first start, and removes the timer.
\<close>

theorem perf_start_keeps_first_start:
  assumes "activeTimers r label = Some t0"
  shows "fst (perf_start r label t1) = False
       \<and> activeTimers (snd (perf_start r label t1)) = activeTimers r
       \<and> activeTimers (snd (perf_start r label t1)) label = Some t0
       \<and> metricsStore (snd (perf_start r label t1)) = metricsStore r
       \<and> console_warn (snd (perf_start r label t1)) = console_warn r @ [already_active_message label]
       \<and> fst (perf_end (snd (perf_start r label t1)) label t2) = t2 - t0
       \<and> activeTimers (snd (perf_end (snd (perf_start r label t1)) label t2)) label = None"
  using assms by (simp add: perf_start_def perf_end_def Let_def)


text \<open>Two starts of \<open>op\<close> at 10 and 20, then an end at 35: the duration is 25.\<close>

theorem perf_start_keeps_first_start_witness:
  "activeTimers (snd (perf_start empty_registry ''op'' 10)) ''op'' = Some 10
   \<and> fst (perf_start empty_registry ''op'' 10) = True
   \<and> fst (perf_start (snd (perf_start empty_registry ''op'' 10)) ''op'' 20) = False
   \<and> fst (perf_end (snd (perf_start (snd (perf_start empty_registry ''op'' 10)) ''op'' 20)) ''op'' 35) = 25"
proof -
  have h: "activeTimers (snd (perf_start empty_registry ''op'' 10)) ''op'' = Some 10"
    by (simp add: perf_start_def empty_registry_def)
  have t: "fst (perf_start empty_registry ''op'' 10) = True"
    by (simp add: perf_start_def empty_registry_def)
  from perf_start_keeps_first_start [OF h, of 20 35] h t
  show ?thesis by simp
qed

subsection \<open>Timing an asynchronous operation\<close>

lemma timer_end_written:
  "written (loggers (snd (timer_end w t finish now)) (timer_logger t)) =
     written (loggers w (timer_logger t)) @
       (if shouldLog (config (loggers w (timer_logger t))) ''debug''
        then [createEntry (config (loggers w (timer_logger t))) (global_of w (timer_logger t)) ''debug''
                (timer_label t @ '': '' @ toFixed2 (finish - timer_start t) @ ''ms'')
                (Some [''duration'' \<mapsto> JNum (finish - timer_start t), ''label'' \<mapsto> JStr (timer_label t)])
                JUndefined now]
        else [])"
  by (simp add: timer_end_def debug_def written_write_entry Let_def)

text \<open>
  C8. When the promise of \<open>fn\<close> settles, \<open>timeAsync\<close> settles the same way with the same
  value or the same rejection, and the timer's closure has run once: the transport of the
  logger has received, after whatever \<open>fn\<close> itself logged, exactly one more entry, the
  debug-level timing entry, if the level filter admits \<open>debug\<close>, and nothing more
  otherwise.
\<close>

theorem timeAsync_propagates_outcome:
  assumes "fn w = (r, w1)" and "r \<noteq> Pending"
  shows "fst (timeAsync w p label fn start finish now) = r
       \<and> written (loggers (snd (timeAsync w p label fn start finish now)) p) =
           written (loggers w1 p) @
             (if shouldLog (config (loggers w1 p)) ''debug''
              then [createEntry (config (loggers w1 p)) (global_of w1 p) ''debug''
                      (label @ '': '' @ toFixed2 (finish - start) @ ''ms'')
                      (Some [''duration'' \<mapsto> JNum (finish - start), ''label'' \<mapsto> JStr label])
                      JUndefined now]
              else [])"
  using assms timer_end_written [of w1 "time p label start" finish now]
  by (cases r) (simp_all add: timeAsync_def time_def)

lemma toFixed2_25: "toFixed2 25 = ''25.00''"
  by (simp add: toFixed2_def show_int_def digits.simps)

text \<open>The failing case of the test file: the rejection is passed on and one entry is written.\<close>

theorem timeAsync_propagates_outcome_witness:
  "async_failure (snd (new_BaseLogger initial_world (no_config\<lparr> opt_level := Some (JStr ''debug'') \<rparr>)))
    = (Rejected (JError ''Error'' ''Async failure'' None None),
       snd (new_BaseLogger initial_world (no_config\<lparr> opt_level := Some (JStr ''debug'') \<rparr>)))
   \<and> Rejected (JError ''Error'' ''Async failure'' None None) \<noteq> (Pending :: string outcome)
   \<and> fst (timeAsync (snd (new_BaseLogger initial_world (no_config\<lparr> opt_level := Some (JStr ''debug'') \<rparr>)))
          0 ''failing-op'' async_failure 0 25 ''t'')
      = Rejected (JError ''Error'' ''Async failure'' None None)
   \<and> map entry_message (written (loggers (snd (timeAsync
          (snd (new_BaseLogger initial_world (no_config\<lparr> opt_level := Some (JStr ''debug'') \<rparr>)))
          0 ''failing-op'' async_failure 0 25 ''t'')) 0))
      = [''failing-op: 25.00ms'']"
proof -
  let ?w = "snd (new_BaseLogger initial_world (no_config\<lparr> opt_level := Some (JStr ''debug'') \<rparr>))"
  have h: "async_failure ?w = (Rejected (JError ''Error'' ''Async failure'' None None), ?w)"
    by (simp add: async_failure_def)
  have n: "Rejected (JError ''Error'' ''Async failure'' None None) \<noteq> (Pending :: string outcome)"
    by simp
  have g: "written (loggers ?w 0) = []" "prefix (config (loggers ?w 0)) = None"
    "shouldLog (config (loggers ?w 0)) ''debug''"
    by (simp_all add: new_BaseLogger_initial no_config_def make_config_def shouldLog_def LOG_LEVELS_def)
  from timeAsync_propagates_outcome
         [where fn = async_failure and w = "?w" and p = 0 and label = "''failing-op''"
            and start = 0 and finish = 25 and now = "''t''", OF h n] h g
  show ?thesis by (simp add: createEntry_def toFixed2_25)
qed

subsection \<open>Redaction, entries and the store\<close>

lemma fold_redact_apply:
  "fold (\<lambda>field redacted. if has_property redacted field then set_sentinel redacted field else redacted) fs m k
     = (if k \<in> set fs \<and> (m k \<noteq> None \<or> (k \<in> set Object_prototype_names \<and> k \<noteq> ''__proto__''))
        then Some REDACTED else m k)"
  by (induction fs arbitrary: m) (auto simp: has_property_def set_sentinel_def)

lemma redactSensitiveFields_apply:
  "redactSensitiveFields cfg m k =
     (if k \<in> set (fieldsToRedact cfg) \<and> (m k \<noteq> None \<or> (k \<in> set Object_prototype_names \<and> k \<noteq> ''__proto__''))
      then Some REDACTED else m k)"
  by (simp add: redactSensitiveFields_def fold_redact_apply)


lemma dom_redactSensitiveFields_plain:
  "set (fieldsToRedact cfg) \<inter> set Object_prototype_names = {} \<Longrightarrow> dom (redactSensitiveFields cfg m) = dom m"
  by (auto simp: dom_def redactSensitiveFields_apply)


lemma redactSensitiveFields_plain_empty_iff:
  "set (fieldsToRedact cfg) \<inter> set Object_prototype_names = {} \<Longrightarrow>
   redactSensitiveFields cfg m = Map.empty \<longleftrightarrow> m = Map.empty"
  using dom_redactSensitiveFields_plain [of cfg m] by (metis dom_eq_empty_conv)

lemma entry_context_createEntry:
  "entry_context (createEntry cfg G lvl msg (Some c) e now) =
     (if redactSensitiveFields cfg (G ++ c) = Map.empty then None
      else Some (redactSensitiveFields cfg (G ++ c)))"
  by (simp add: createEntry_def mergeContext_def)


lemma delegating_log_call_unfold:
  "delegating_log_call S w d msg e context now =
     log_call S w (parent d) msg e (Some (delegating_mergeContext w d context)) now"
  by (cases S)
     (simp_all add: delegating_debug_def delegating_info_def delegating_warn_def delegating_error_def)

lemma delegating_mergeContext_eq:
  "delegating_mergeContext w d context =
     heap w (childContext d) ++ (case context of None \<Rightarrow> Map.empty | Some c \<Rightarrow> c)"
  by (simp add: delegating_mergeContext_def split: option.splits)

lemma delegating_written:
  "written (loggers (delegating_log_call S w (child p a) msg e context now) p) =
     written (loggers w p) @
       (if shouldLog (config (loggers w p)) (level_name S)
        then [createEntry (config (loggers w p)) (global_of w p) (level_name S) msg
                (Some (heap w a ++ (case context of None \<Rightarrow> Map.empty | Some c \<Rightarrow> c)))
                (if S = Error then e else JUndefined) now]
        else [])"
  by (simp add: delegating_log_call_unfold log_call_unfold written_write_entry child_def
      delegating_mergeContext_eq)

lemma delegating_child_eq:
  "delegating_child w (child p a) c =
     (child p (next_addr w),
      w\<lparr> heap := (heap w)(next_addr w := heap w a ++ c), next_addr := Suc (next_addr w) \<rparr>)"
  by (simp add: delegating_child_def new_object_def child_def)


lemma setContext_eq:
  "setContext w p c =
     w\<lparr> heap := (heap w)(next_addr w := global_of w p ++ c), next_addr := Suc (next_addr w),
        loggers := (loggers w)(p := (loggers w p)\<lparr> globalContext := next_addr w \<rparr>) \<rparr>"
  by (simp add: setContext_def new_object_def)

lemma setContext_fresh_global:
  "globalContext (loggers (setContext w p c) p) = next_addr w
   \<and> global_of (setContext w p c) p = global_of w p ++ c"
  by (simp add: setContext_eq global_of_def)

lemma delegating_log_call_frame:
  "(\<forall>q. q \<noteq> p \<longrightarrow> loggers (delegating_log_call S w (child p a) msg e context now) q = loggers w q)
   \<and> config (loggers (delegating_log_call S w (child p a) msg e context now) p) = config (loggers w p)
   \<and> globalContext (loggers (delegating_log_call S w (child p a) msg e context now) p) = globalContext (loggers w p)
   \<and> next_lid (delegating_log_call S w (child p a) msg e context now) = next_lid w
   \<and> heap (delegating_log_call S w (child p a) msg e context now) = heap w
   \<and> next_addr (delegating_log_call S w (child p a) msg e context now) = next_addr w"
  by (simp add: delegating_log_call_unfold log_call_unfold write_entry_def child_def)

lemma timer_end_debug:
  "snd (timer_end w t finish now) =
     log_call Debug w (timer_logger t) (timer_label t @ '': '' @ toFixed2 (finish - timer_start t) @ ''ms'')
       JUndefined
       (Some [''duration'' \<mapsto> JNum (finish - timer_start t), ''label'' \<mapsto> JStr (timer_label t)]) now"
  by (simp add: timer_end_def Let_def)

lemma log_call_store:
  "heap (log_call S w p msg e context now) = heap w"
  "next_addr (log_call S w p msg e context now) = next_addr w"
  "next_lid (log_call S w p msg e context now) = next_lid w"
  "globalContext (loggers (log_call S w p msg e context now) q) = globalContext (loggers w q)"
  by (simp_all add: log_call_unfold write_entry_def)

lemma child_sel: "parent (child p a) = p" "childContext (child p a) = a"
  by (simp_all add: child_def)

text \<open>Every reachable state is separated.\<close>

lemma reachable_separated: "reachable w K \<Longrightarrow> separated w K"
proof (induction rule: reachable.induct)
  case start
  then show ?case by (simp add: separated_def initial_world_def)
next
  case (construct w K c)
  then show ?case
    by (auto simp: separated_def new_BaseLogger_def new_object_def Let_def less_Suc_eq)
next
  case (literal w K c)
  then show ?case
    by (auto simp: separated_def new_object_def less_Suc_eq)
next
  case (assign w K a c)
  then show ?case by (simp add: separated_def)
next
  case (log w K p S msg e "context" now)
  then show ?case by (simp add: separated_def log_call_store)
next
  case (set_global w K p c)
  then show ?case
    by (auto simp: separated_def setContext_eq less_Suc_eq)
next
  case (timed w K t finish now)
  then show ?case by (simp add: separated_def timer_end_debug log_call_store del: log_call.simps)
next
  case (child_log w K p a S msg e "context" now)
  then show ?case
    by (simp add: separated_def delegating_log_call_unfold log_call_store
        del: log_call.simps delegating_log_call.simps)
next
  case (child_set w K p a c)
  then show ?case by (simp add: separated_def delegating_setContext_def)
next
  case (grandchild w K p a c)
  then show ?case
    by (auto simp: separated_def delegating_child_eq child_sel less_Suc_eq)
qed

lemma example_world_eq:
  "example_world =
     \<lparr> loggers = (loggers initial_world)(0 := \<lparr> config = make_config no_config, globalContext = 1, written = [] \<rparr>),
       next_lid = 1,
       heap = (\<lambda>_. Map.empty)(1 := [''a'' \<mapsto> JNum 1], 2 := [''b'' \<mapsto> JNum 2]),
       next_addr = 3 \<rparr>"
  by (simp add: example_world_def new_BaseLogger_initial setContext_def new_object_def global_of_def fun_eq_iff)

lemma example_world_facts:
  "config (loggers example_world 0) = make_config no_config"
  "globalContext (loggers example_world 0) = 1"
  "written (loggers example_world 0) = []"
  "next_addr example_world = 3"
  "global_of example_world 0 = [''a'' \<mapsto> JNum 1]"
  "heap example_world 2 = [''b'' \<mapsto> JNum 2]"
  by (simp_all add: example_world_eq global_of_def)

lemma default_config_facts:
  "shouldLog (make_config no_config) ''info''"
  "shouldLog (make_config no_config) ''warn''"
  "shouldLog (make_config no_config) ''error''"
  "\<not> shouldLog (make_config no_config) ''debug''"
  "fieldsToRedact (make_config no_config) = DEFAULT_REDACT_FIELDS"
  "prefix (make_config no_config) = None"
  by (simp_all add: make_config_def no_config_def shouldLog_def LOG_LEVELS_def fieldsToRedact_def)

lemma default_fields_plain: "set DEFAULT_REDACT_FIELDS \<inter> set Object_prototype_names = {}"
  by (auto simp: DEFAULT_REDACT_FIELDS_def Object_prototype_names_def)

lemma redact_default_unchanged:
  "dom m \<inter> set DEFAULT_REDACT_FIELDS = {} \<Longrightarrow> redactSensitiveFields (make_config no_config) m = m"
  using default_fields_plain by (intro ext) (auto simp: redactSensitiveFields_apply default_config_facts)

lemma example_world_reachable: "reachable example_world {2}"
proof -
  let ?w1 = "snd (new_BaseLogger initial_world no_config)"
  let ?w2 = "setContext ?w1 0 [''a'' \<mapsto> JNum 1]"
  have r1: "reachable ?w1 {}"
    by (rule reachable.construct [OF reachable.start])
  have r2: "reachable ?w2 {}"
    by (rule reachable.set_global [OF r1]) (simp add: new_BaseLogger_initial)
  have "fst (new_object ?w2 [''b'' \<mapsto> JNum 2]) = 2"
    by (simp add: new_object_def setContext_eq new_BaseLogger_initial)
  with reachable.literal [OF r2, of "[''b'' \<mapsto> JNum 2]"] show ?thesis
    by (simp add: example_world_def)
qed

lemma test_world_facts:
  "config (loggers test_world 0) =
     make_config (no_config\<lparr> opt_level := Some (JStr ''debug''), opt_prefix := Some ''Test'' \<rparr>)"
  "written (loggers test_world 0) = []"
  "next_addr test_world = 2"
  "global_of test_world 0 = Map.empty"
  "heap test_world (Suc 0) = [''requestId'' \<mapsto> JStr ''123'']"
  by (simp_all add: test_world_def new_BaseLogger_initial new_object_def global_of_def)

lemma test_config_facts:
  "shouldLog (make_config (no_config\<lparr> opt_level := Some (JStr ''debug''), opt_prefix := Some ''Test'' \<rparr>)) ''debug''"
  "prefix (make_config (no_config\<lparr> opt_level := Some (JStr ''debug''), opt_prefix := Some ''Test'' \<rparr>)) = Some ''Test''"
  "fieldsToRedact (make_config (no_config\<lparr> opt_level := Some (JStr ''debug''), opt_prefix := Some ''Test'' \<rparr>))
     = DEFAULT_REDACT_FIELDS"
  by (simp_all add: make_config_def no_config_def shouldLog_def LOG_LEVELS_def fieldsToRedact_def)

lemma test_world_reachable: "reachable test_world {1}"
proof -
  let ?w1 = "snd (new_BaseLogger initial_world
                    (no_config\<lparr> opt_level := Some (JStr ''debug''), opt_prefix := Some ''Test'' \<rparr>))"
  have r1: "reachable ?w1 {}"
    by (rule reachable.construct [OF reachable.start])
  have "fst (new_object ?w1 [''requestId'' \<mapsto> JStr ''123'']) = 1"
    by (simp add: new_object_def new_BaseLogger_initial)
  with reachable.literal [OF r1, of "[''requestId'' \<mapsto> JStr ''123'']"] show ?thesis
    by (simp add: test_world_def)
qed

subsection \<open>Context layers of a child logger\<close>

text \<open>
  C4, as amended. Parent global context \<open>G\<close>, child layer \<open>C\<close> (the object given to
  \<open>child\<close>), call-site context \<open>L\<close>: when the call passes the level filter, the entry
  carries the field-redacted union of \<open>G\<close>, \<open>C\<close> and \<open>L\<close>, and no context at all when the
  redacted union is empty. In the union the call-site value wins over the child layer and
  the child layer over the parent. Redaction gives the sentinel to every name listed in
  \<open>redactFields\<close> that is a key of the union or a method name that every plain object
  inherits (\<open>constructor\<close>, \<open>toString\<close> and the like, \<open>__proto__\<close> apart), and leaves every
  other key as it is; when \<open>redactFields\<close> lists no inherited name, as the default list
  does, the redacted union has the keys of the union. For a child's child created with
  \<open>C2\<close> the layers are \<open>G\<close>, then \<open>C\<close> overridden by \<open>C2\<close>, then \<open>L\<close>.
\<close>

theorem child_context_composition:
  assumes "reachable w K" and "p < next_lid w"
    and "shouldLog (config (loggers w p)) (level_name S)"
  shows "(\<exists>entry.
            written (loggers (delegating_log_call S w (child p a) msg e (Some L) now) p) =
              written (loggers w p) @ [entry]
          \<and> entry_context entry =
              (if redactSensitiveFields (config (loggers w p)) (global_of w p ++ heap w a ++ L) = Map.empty
               then None
               else Some (redactSensitiveFields (config (loggers w p)) (global_of w p ++ heap w a ++ L))))
       \<and> (\<forall>k. (global_of w p ++ heap w a ++ L) k =
              (case L k of Some v \<Rightarrow> Some v
               | None \<Rightarrow> (case heap w a k of Some v \<Rightarrow> Some v | None \<Rightarrow> global_of w p k)))
       \<and> (\<forall>m k. redactSensitiveFields (config (loggers w p)) m k =
              (if k \<in> set (fieldsToRedact (config (loggers w p))) \<and>
                  (m k \<noteq> None \<or> (k \<in> set Object_prototype_names \<and> k \<noteq> ''__proto__''))
               then Some REDACTED
               else m k))
       \<and> (set (fieldsToRedact (config (loggers w p))) \<inter> set Object_prototype_names = {} \<longrightarrow>
            (\<forall>m. dom (redactSensitiveFields (config (loggers w p)) m) = dom m))
       \<and> (\<forall>C2. \<exists>entry.
            written (loggers (delegating_log_call S (snd (delegating_child w (child p a) C2))
                                (fst (delegating_child w (child p a) C2)) msg e (Some L) now) p) =
              written (loggers w p) @ [entry]
          \<and> entry_context entry =
              (if redactSensitiveFields (config (loggers w p)) (global_of w p ++ (heap w a ++ C2) ++ L)
                    = Map.empty
               then None
               else Some (redactSensitiveFields (config (loggers w p))
                            (global_of w p ++ (heap w a ++ C2) ++ L))))"
proof -
  from reachable_separated [OF assms(1)] assms(2)
  have g: "globalContext (loggers w p) < next_addr w"
    by (simp add: separated_def)
  have 1: "\<exists>entry.
            written (loggers (delegating_log_call S w (child p a) msg e (Some L) now) p) =
              written (loggers w p) @ [entry]
          \<and> entry_context entry =
              (if redactSensitiveFields (config (loggers w p)) (global_of w p ++ heap w a ++ L) = Map.empty
               then None
               else Some (redactSensitiveFields (config (loggers w p)) (global_of w p ++ heap w a ++ L)))"
    using assms(3) by (simp add: delegating_written entry_context_createEntry)
  have 2: "\<forall>k. (global_of w p ++ heap w a ++ L) k =
              (case L k of Some v \<Rightarrow> Some v
               | None \<Rightarrow> (case heap w a k of Some v \<Rightarrow> Some v | None \<Rightarrow> global_of w p k))"
    by (simp add: map_add_def split: option.splits)
  have 3: "\<forall>m k. redactSensitiveFields (config (loggers w p)) m k =
              (if k \<in> set (fieldsToRedact (config (loggers w p))) \<and>
                  (m k \<noteq> None \<or> (k \<in> set Object_prototype_names \<and> k \<noteq> ''__proto__''))
               then Some REDACTED
               else m k)"
    by (simp only: redactSensitiveFields_apply) simp
  have 4: "set (fieldsToRedact (config (loggers w p))) \<inter> set Object_prototype_names = {} \<longrightarrow>
            (\<forall>m. dom (redactSensitiveFields (config (loggers w p)) m) = dom m)"
    by (simp add: dom_redactSensitiveFields_plain)
  have 5: "\<exists>entry.
            written (loggers (delegating_log_call S (snd (delegating_child w (child p a) C2))
                                (fst (delegating_child w (child p a) C2)) msg e (Some L) now) p) =
              written (loggers w p) @ [entry]
          \<and> entry_context entry =
              (if redactSensitiveFields (config (loggers w p)) (global_of w p ++ (heap w a ++ C2) ++ L)
                    = Map.empty
               then None
               else Some (redactSensitiveFields (config (loggers w p))
                            (global_of w p ++ (heap w a ++ C2) ++ L)))" for C2
    using assms(3) g
    by (simp add: delegating_child_eq delegating_written entry_context_createEntry global_of_def)
  from 1 2 3 4 5 show ?thesis by blast
qed

text \<open>The example of the specification: \<open>{a: 1}\<close>, \<open>{b: 2}\<close>, \<open>{c: 3}\<close> give \<open>{a: 1, b: 2, c: 3}\<close>.\<close>

theorem child_context_composition_witness:
  "reachable example_world {2} \<and> 0 < next_lid example_world
   \<and> shouldLog (config (loggers example_world 0)) (level_name Info)
   \<and> map entry_context
       (written (loggers (delegating_log_call Info example_world (child 0 2) ''m'' JUndefined
                            (Some [''c'' \<mapsto> JNum 3]) ''t'') 0))
     = [Some [''a'' \<mapsto> JNum 1, ''b'' \<mapsto> JNum 2, ''c'' \<mapsto> JNum 3]]"
proof -
  have h: "shouldLog (config (loggers example_world 0)) (level_name Info)"
    by (simp add: example_world_facts default_config_facts)
  have g: "0 < next_lid example_world"
    by (simp add: example_world_eq)
  have r: "redactSensitiveFields (make_config no_config) [''a'' \<mapsto> JNum 1, ''b'' \<mapsto> JNum 2, ''c'' \<mapsto> JNum 3]
             = [''a'' \<mapsto> JNum 1, ''b'' \<mapsto> JNum 2, ''c'' \<mapsto> JNum 3]"
    by (rule redact_default_unchanged) (simp add: DEFAULT_REDACT_FIELDS_def)
  from child_context_composition [OF example_world_reachable g h, of 2 "''m''" JUndefined "[''c'' \<mapsto> JNum 3]" "''t''"]
  obtain entry where
    "written (loggers (delegating_log_call Info example_world (child 0 2) ''m'' JUndefined
                            (Some [''c'' \<mapsto> JNum 3]) ''t'') 0) = written (loggers example_world 0) @ [entry]"
    "entry_context entry =
       (if redactSensitiveFields (config (loggers example_world 0))
             (global_of example_world 0 ++ heap example_world 2 ++ [''c'' \<mapsto> JNum 3]) = Map.empty then None
        else Some (redactSensitiveFields (config (loggers example_world 0))
                     (global_of example_world 0 ++ heap example_world 2 ++ [''c'' \<mapsto> JNum 3])))"
    by blast
  with h g r example_world_reachable show ?thesis
    by (simp add: example_world_facts)
qed

text \<open>
  C4 as stated fails where a key of the union is a redacted field: with the call-site
  context \<open>{password: 'hunter2'}\<close> the entry carries the sentinel under \<open>password\<close>, not
  the call-site value, so its context is not the union.
\<close>

theorem sensitive_key_counterexample:
  "shouldLog (config (loggers example_world 0)) (level_name Info)
   \<and> map entry_context
       (written (loggers (delegating_log_call Info example_world (child 0 2) ''m'' JUndefined
                            (Some [''password'' \<mapsto> JStr ''hunter2'']) ''t'') 0))
     = [Some [''a'' \<mapsto> JNum 1, ''b'' \<mapsto> JNum 2, ''password'' \<mapsto> JStr ''[REDACTED]'']]
   \<and> [''a'' \<mapsto> JNum 1, ''b'' \<mapsto> JNum 2, ''password'' \<mapsto> JStr ''[REDACTED]'']
     \<noteq> global_of example_world 0 ++ heap example_world 2 ++ [''password'' \<mapsto> JStr ''hunter2'']"
proof -
  have h: "shouldLog (config (loggers example_world 0)) (level_name Info)"
    by (simp add: example_world_facts default_config_facts)
  have r: "redactSensitiveFields (make_config no_config)
             [''a'' \<mapsto> JNum 1, ''b'' \<mapsto> JNum 2, ''password'' \<mapsto> JStr ''hunter2'']
           = [''a'' \<mapsto> JNum 1, ''b'' \<mapsto> JNum 2, ''password'' \<mapsto> JStr ''[REDACTED]'']"
    by (rule ext)
       (auto simp: redactSensitiveFields_apply default_config_facts DEFAULT_REDACT_FIELDS_def REDACTED_def
          Object_prototype_names_def)
  have n: "[''a'' \<mapsto> JNum 1, ''b'' \<mapsto> JNum 2, ''password'' \<mapsto> JStr ''[REDACTED]'']
     \<noteq> global_of example_world 0 ++ heap example_world 2 ++ [''password'' \<mapsto> JStr ''hunter2'']"
    by (auto simp: example_world_facts dest: fun_cong [where x = "''password''"])
  from h r n show ?thesis
    by (simp add: delegating_written example_world_facts entry_context_createEntry
        del: delegating_log_call.simps)
qed

subsection \<open>The child's own layer and the parent\<close>



subsection \<open>Delegation\<close>

text \<open>
  C6. \<open>child(context)\<close> builds a record of two references, one to the parent and one to
  the caller's context object; it has no configuration and no transport, and building it
  changes nothing in the store. A call on the child writes to the parent's transport, and to
  no other logger's, exactly when the parent's level admits the severity, and the entry is
  built with the parent's configuration, so its message carries the parent's prefix. After
  \<open>parent.setContext(U)\<close> the entries written through the child are built from the
  parent's updated global context.
\<close>

theorem child_delegates_to_parent:
  assumes "reachable w K" and "a \<in> K"
  shows "child p a = \<lparr> parent = p, childContext = a \<rparr>
       \<and> written (loggers (delegating_log_call S w (child p a) msg e context now) p) =
           written (loggers w p) @
             (if shouldLog (config (loggers w p)) (level_name S)
              then [createEntry (config (loggers w p)) (global_of w p) (level_name S) msg
                      (Some (heap w a ++ (case context of None \<Rightarrow> Map.empty | Some c \<Rightarrow> c)))
                      (if S = Error then e else JUndefined) now]
              else [])
       \<and> (\<forall>q. q \<noteq> p \<longrightarrow> loggers (delegating_log_call S w (child p a) msg e context now) q = loggers w q)
       \<and> config (loggers (delegating_log_call S w (child p a) msg e context now) p) = config (loggers w p)
       \<and> next_lid (delegating_log_call S w (child p a) msg e context now) = next_lid w
       \<and> written (loggers (delegating_log_call S (setContext w p U) (child p a) msg e context now) p) =
           written (loggers w p) @
             (if shouldLog (config (loggers w p)) (level_name S)
              then [createEntry (config (loggers w p)) (global_of w p ++ U) (level_name S) msg
                      (Some (heap w a ++ (case context of None \<Rightarrow> Map.empty | Some c \<Rightarrow> c)))
                      (if S = Error then e else JUndefined) now]
              else [])
       \<and> entry_message (createEntry (config (loggers w p)) G (level_name S) msg c e' now) =
           (case prefix (config (loggers w p)) of
              None \<Rightarrow> msg
            | Some pf \<Rightarrow> if pf \<noteq> [] then ''['' @ pf @ ''] '' @ msg else msg)"
proof -
  let ?c = "Some (heap w a ++ (case context of None \<Rightarrow> Map.empty | Some c \<Rightarrow> c))"
  let ?e = "if S = Error then e else JUndefined"
  from reachable_separated [OF assms(1)] assms(2)
  have al: "a < next_addr w"
    by (simp add: separated_def)
  have s: "written (loggers (setContext w p U) p) = written (loggers w p)"
    "config (loggers (setContext w p U) p) = config (loggers w p)"
    "global_of (setContext w p U) p = global_of w p ++ U"
    "heap (setContext w p U) a = heap w a"
    using al by (simp_all add: setContext_eq global_of_def)
  have 1: "child p a = \<lparr> parent = p, childContext = a \<rparr>"
    by (simp add: child_def)
  have 2: "written (loggers (delegating_log_call S w (child p a) msg e context now) p) =
           written (loggers w p) @
             (if shouldLog (config (loggers w p)) (level_name S)
              then [createEntry (config (loggers w p)) (global_of w p) (level_name S) msg ?c ?e now]
              else [])"
    by (rule delegating_written)
  have 3: "written (loggers (delegating_log_call S (setContext w p U) (child p a) msg e context now) p) =
           written (loggers w p) @
             (if shouldLog (config (loggers w p)) (level_name S)
              then [createEntry (config (loggers w p)) (global_of w p ++ U) (level_name S) msg ?c ?e now]
              else [])"
    by (simp only: delegating_written s)
  have 4: "entry_message (createEntry (config (loggers w p)) G (level_name S) msg c e' now) =
           (case prefix (config (loggers w p)) of
              None \<Rightarrow> msg
            | Some pf \<Rightarrow> if pf \<noteq> [] then ''['' @ pf @ ''] '' @ msg else msg)"
    by (simp add: createEntry_def)
  from 1 2 3 4 delegating_log_call_frame [of p S w a msg e "context" now]
  show ?thesis by blast
qed

text \<open>
  The test file's parent with level \<open>debug\<close> and prefix \<open>Test\<close>: the child is created, then
  the parent's context is set, then the child logs.
\<close>

theorem child_delegates_to_parent_witness:
  "reachable test_world {1} \<and> 1 \<in> {1::nat}
   \<and> map (\<lambda>entry. (entry_level entry, entry_message entry, entry_context entry))
       (written (loggers (delegating_log_call Debug
          (setContext test_world 0 [''service'' \<mapsto> JStr ''parent'']) (child 0 1)
          ''debug message'' JUndefined None ''t'') 0))
     = [(''debug'', ''[Test] debug message'',
         Some [''service'' \<mapsto> JStr ''parent'', ''requestId'' \<mapsto> JStr ''123''])]"
proof -
  have h: "1 \<in> {1::nat}" by simp
  have r: "redactSensitiveFields (config (loggers test_world 0))
             [''service'' \<mapsto> JStr ''parent'', ''requestId'' \<mapsto> JStr ''123'']
           = [''service'' \<mapsto> JStr ''parent'', ''requestId'' \<mapsto> JStr ''123'']"
    by (rule ext)
       (auto simp: redactSensitiveFields_apply test_world_facts test_config_facts DEFAULT_REDACT_FIELDS_def
          Object_prototype_names_def)
  from child_delegates_to_parent [OF test_world_reachable h, of 0 Debug "''debug message''" JUndefined None "''t''"
         "[''service'' \<mapsto> JStr ''parent'']"]
  have "written (loggers (delegating_log_call Debug
          (setContext test_world 0 [''service'' \<mapsto> JStr ''parent'']) (child 0 1)
          ''debug message'' JUndefined None ''t'') 0) =
        written (loggers test_world 0) @
          (if shouldLog (config (loggers test_world 0)) (level_name Debug)
           then [createEntry (config (loggers test_world 0))
                   (global_of test_world 0 ++ [''service'' \<mapsto> JStr ''parent'']) (level_name Debug)
                   ''debug message''
                   (Some (heap test_world 1 ++ (case None of None \<Rightarrow> Map.empty | Some c \<Rightarrow> c)))
                   (if Debug = Error then JUndefined else JUndefined) ''t'']
           else [])"
    by blast
  with h r test_world_reachable show ?thesis
    by (simp add: test_world_facts test_config_facts createEntry_def mergeContext_def
        del: delegating_log_call.simps)
qed

subsection \<open>The bearer rule and the authorization rule\<close>


















subsection \<open>Quoted values\<close>

text \<open>
  C2. The claim fails on the code for quoted values. In
  \<open>password="correct horse Bearer staple"\<close> the bearer rule, applied first, takes the last
  word together with the closing quote as its token; the password rule then finds no
  closing quote, falls back to the unquoted alternative and replaces \<open>"correct\<close> only, so
  \<open>horse\<close> remains. In \<open>password="it's a secret"\<close> the closing-quote class accepts the
  apostrophe, so the match ends after \<open>it\<close> and the rest of the value remains. By
  contrast, \<open>password="correct horse battery staple"\<close> is replaced whole.
\<close>

theorem quoted_value_leak:
  "sanitizeErrorMessage (''password='' @ [CHR 0x22] @ ''correct horse Bearer staple'' @ [CHR 0x22]) =
     ''password=[REDACTED] horse Bearer [REDACTED]''
   \<and> replace_all bearer_pattern ''Bearer [REDACTED]''
       (''password='' @ [CHR 0x22] @ ''correct horse Bearer staple'' @ [CHR 0x22]) =
     ''password='' @ [CHR 0x22] @ ''correct horse Bearer [REDACTED]''
   \<and> sanitizeErrorMessage (''password='' @ [CHR 0x22] @ ''it'' @ [CHR 0x27] @ ''s a secret'' @ [CHR 0x22]) =
     ''password=[REDACTED]s a secret'' @ [CHR 0x22]
   \<and> sanitizeErrorMessage (''password='' @ [CHR 0x22] @ ''correct horse battery staple'' @ [CHR 0x22]) =
     ''password=[REDACTED]''"
  by code_simp

theorem quoted_value_leak_witness:
  "sanitizeErrorMessage (''password='' @ [CHR 0x22] @ ''correct horse Bearer staple'' @ [CHR 0x22]) \<noteq>
     ''password=[REDACTED]''"
  using quoted_value_leak by simp

subsection \<open>Cases of the test files\<close>

text \<open>
  The model gives what the repository's tests expect: the sanitization, error formatting
  and entry construction cases of the base logger's test file, its timing cases, and the
  accumulation and unstarted-timer cases of the registry.
\<close>

lemma test_sanitize_cases:
  "sanitizeErrorMessage ''Authorization: Bearer token123abc failed'' = ''Authorization: Bearer [REDACTED] failed''"
  "sanitizeErrorMessage ''Failed with token=mysecrettoken'' = ''Failed with token=[REDACTED]''"
  "sanitizeErrorMessage ''Invalid secret: mysecret123'' = ''Invalid secret=[REDACTED]''"
  "sanitizeErrorMessage ''Bad password=badpass123'' = ''Bad password=[REDACTED]''"
  "sanitizeErrorMessage ''API failed with api_key: sk-12345'' = ''API failed with api_key=[REDACTED]''"
  by code_simp+

lemma test_formatError_cases:
  "formatError (make_config no_config) (JError ''Error'' ''Test error'' None (Some ''Error: Test error at ...'')) =
     \<lparr> name = ''Error'', message = ''Test error'', code = None, stack = None \<rparr>"
  "formatError (make_config no_config) (JError ''Error'' ''Not found'' (Some (JStr ''NOT_FOUND'')) None) =
     \<lparr> name = ''Error'', message = ''Not found'', code = Some ''NOT_FOUND'', stack = None \<rparr>"
  "formatError (make_config (no_config\<lparr> opt_sanitizeErrors := Some False \<rparr>))
       (JError ''Error'' ''Test'' None (Some ''Error: Test at ...'')) =
     \<lparr> name = ''Error'', message = ''Test'', code = None, stack = Some ''Error: Test at ...'' \<rparr>"
  "formatError (make_config no_config) (JStr ''string error'') =
     \<lparr> name = ''Unknown'', message = ''string error'', code = None, stack = None \<rparr>"
  "formatError (make_config no_config) (JObject None) =
     \<lparr> name = ''Unknown'', message = ''[object Object]'', code = None, stack = None \<rparr>"
  "formatError (make_config no_config) JNull =
     \<lparr> name = ''Unknown'', message = ''null'', code = None, stack = None \<rparr>"
  "formatError (make_config no_config) JUndefined =
     \<lparr> name = ''Unknown'', message = ''undefined'', code = None, stack = None \<rparr>"
  by code_simp+

lemma test_createEntry_cases:
  "createEntry (make_config no_config) Map.empty ''info'' ''Test message'' None JUndefined ''2024-01-15T12:00:00.000Z'' =
     \<lparr> entry_level = ''info'', entry_message = ''Test message'', entry_timestamp = ''2024-01-15T12:00:00.000Z'',
       entry_context = None, entry_error = None \<rparr>"
  "entry_message (createEntry (make_config (no_config\<lparr> opt_prefix := Some ''MyApp'' \<rparr>)) Map.empty
                    ''info'' ''Hello'' None JUndefined now) = ''[MyApp] Hello''"
  "entry_context (createEntry (make_config no_config) Map.empty ''info'' ''Test'' (Some Map.empty) JUndefined now) = None"
  "mergeContext (make_config no_config) Map.empty None = None"
  "mergeContext (make_config no_config) Map.empty (Some Map.empty) = Some Map.empty"
  by (simp_all add: createEntry_def mergeContext_def make_config_def no_config_def redactSensitiveFields_def
      fieldsToRedact_def DEFAULT_REDACT_FIELDS_def has_property_def set_sentinel_def
      Object_prototype_names_def)

lemma test_time_case:
  "fst (timer_end (snd (new_BaseLogger initial_world (no_config\<lparr> opt_level := Some (JStr ''debug'') \<rparr>)))
          (time 0 ''operation'' 0) 100 now) = 100"
  "map entry_message (written (loggers (snd (timer_end
          (snd (new_BaseLogger initial_world (no_config\<lparr> opt_level := Some (JStr ''debug'') \<rparr>)))
          (time 0 ''operation'' 0) 100 now)) 0)) = [''operation: 100.00ms'']"
  by (simp_all add: timer_end_def time_def debug_def write_entry_def createEntry_def new_BaseLogger_initial
      make_config_def no_config_def shouldLog_def LOG_LEVELS_def toFixed2_def show_int_def digits.simps)

lemma test_timeAsync_result:
  "fst (timeAsync (snd (new_BaseLogger initial_world (no_config\<lparr> opt_level := Some (JStr ''debug'') \<rparr>)))
          0 ''async-op'' async_result 0 50 now) = Resolved ''async-result''"
  by (simp add: timeAsync_def async_result_def)

lemma test_perf_accumulate:
  "metricsStore
     (snd (perf_end (snd (perf_start
        (snd (perf_end (snd (perf_start
           (snd (perf_end (snd (perf_start empty_registry ''repeated'' 0)) ''repeated'' 100))
           ''repeated'' 0)) ''repeated'' 50))
        ''repeated'' 0)) ''repeated'' 150))
     ''repeated''
   = Some \<lparr> count = 3, totalTime = 300, minTime = 50, maxTime = 150, avgTime = 100 \<rparr>"
  by (simp add: perf_start_def perf_end_def empty_registry_def Let_def)

lemma test_perf_unstarted:
  "perf_end empty_registry ''nonexistent'' t =
     (0, empty_registry\<lparr> console_warn := [''No timer started for label: nonexistent''] \<rparr>)"
  "fst (perf_end (clearMetrics (snd (perf_start empty_registry ''active'' 0))) ''active'' t) = 0"
  by (simp_all add: perf_end_def perf_start_def clearMetrics_def empty_registry_def)

text \<open>
  Names that a plain object inherits: listed in \<open>redactFields\<close>, \<open>constructor\<close> and
  \<open>toString\<close> are added with the sentinel, \<open>__proto__\<close> is not; a child created with
  \<open>{}\<close> then logs an entry with the context \<open>{constructor: '[REDACTED]'}\<close>, and a call
  without any context on a logger without global context still has no context field.
\<close>

lemma test_inherited_names:
  "redactSensitiveFields (make_config (no_config\<lparr> opt_redactFields := Some [''constructor''] \<rparr>)) Map.empty =
     [''constructor'' \<mapsto> JStr ''[REDACTED]'']"
  "redactSensitiveFields (make_config (no_config\<lparr> opt_redactFields := Some [''toString''] \<rparr>)) [''a'' \<mapsto> JNum 1] =
     [''a'' \<mapsto> JNum 1, ''toString'' \<mapsto> JStr ''[REDACTED]'']"
  "redactSensitiveFields (make_config (no_config\<lparr> opt_redactFields := Some [''__proto__''] \<rparr>)) [''a'' \<mapsto> JNum 1] =
     [''a'' \<mapsto> JNum 1]"
  "entry_context (createEntry (make_config (no_config\<lparr> opt_redactFields := Some [''constructor''] \<rparr>))
                    Map.empty ''info'' ''m'' (Some Map.empty) JUndefined now) =
     Some [''constructor'' \<mapsto> JStr ''[REDACTED]'']"
  "entry_context (createEntry (make_config (no_config\<lparr> opt_redactFields := Some [''constructor''] \<rparr>))
                    Map.empty ''info'' ''m'' None JUndefined now) = None"
  by (simp_all add: createEntry_def mergeContext_def make_config_def no_config_def redactSensitiveFields_def
      fieldsToRedact_def has_property_def set_sentinel_def Object_prototype_names_def REDACTED_def)

end
